theory Spec2Isabelle
  imports Main "HOL-Library.Sublist" "HOL-Library.AList"
begin

section \<open>Event telemetry queue (AnalyticsSystem)\<close>

text \<open>
  A queued event is the object literal handed to \<open>addToQueue\<close>: \<open>type\<close>, \<open>category\<close>,
  \<open>action\<close>, an optional \<open>label\<close> and the \<open>data\<close> payload (kept opaque, as a string).
\<close>

record event =
  ev_type :: string
  category :: string
  action :: string
  label :: "string option"
  ev_data :: string

text \<open>The body of one POST to \<open>config.endpoints.track\<close>.\<close>

record batch =
  batch_sessionId :: "string option"
  batch_userId :: "string option"
  batch_events :: "event list"

text \<open>
  The module state of AnalyticsSystem: the fields of \<open>config\<close> and \<open>state\<close> that the queue
  reads or writes, the persisted copy \<open>localStorage[config.storageKey]\<close> (\<open>None\<close> when the
  key is absent) and, as a log, the bodies handed to \<open>ApiManager.request\<close>.  Writes to
  localStorage are taken to succeed; \<open>saveQueue\<close> swallows a failed write.
\<close>

record analytics =
  trackingEnabled :: bool
  respectDNT :: bool
  maxQueueSize :: nat
  sessionId :: "string option"
  userId :: "string option"
  eventQueue :: "event list"
  isFlushing :: bool
  storedQueue :: "event list option"
  trackRequests :: "batch list"

definition saveQueue :: "analytics \<Rightarrow> analytics" where
  "saveQueue st = st\<lparr>storedQueue := Some (eventQueue st)\<rparr>"

definition clearQueueStorage :: "analytics \<Rightarrow> analytics" where
  "clearQueueStorage st = st\<lparr>storedQueue := None\<rparr>"

definition loadQueue :: "analytics \<Rightarrow> analytics" where
  "loadQueue st = (case storedQueue st of None \<Rightarrow> st | Some evs \<Rightarrow> st\<lparr>eventQueue := evs\<rparr>)"

definition isCriticalEvent :: "event \<Rightarrow> bool" where
  "isCriticalEvent ev \<longleftrightarrow>
     action ev \<in> set [''submit'', ''complete'', ''error''] \<or> category ev = ''error''"

text \<open>
  \<open>flushQueue\<close> is an async function.  Its body runs without interruption up to
  \<open>await ApiManager.request(...)\<close>; the rest runs when the request has settled, and other
  handlers (for instance \<open>addToQueue\<close>) may run in between.  \<open>flushQueue_start\<close> is the
  part before the await: it returns the new state and, when a request was issued, the
  snapshot \<open>eventsToSend\<close> that the suspended call holds.  In the offline branch there is
  no await and the call runs to its end, \<open>finally\<close> block included.
\<close>

definition flushQueue_start :: "bool \<Rightarrow> analytics \<Rightarrow> analytics \<times> event list option" where
  "flushQueue_start online st =
     (if isFlushing st \<or> eventQueue st = [] then (st, None)
      else
        let eventsToSend = eventQueue st;
            st1 = st\<lparr>isFlushing := True, eventQueue := []\<rparr>
        in if online
           then (st1\<lparr>trackRequests := trackRequests st1 @
                    [\<lparr>batch_sessionId = sessionId st1, batch_userId = userId st1,
                      batch_events = eventsToSend\<rparr>]\<rparr>,
                 Some eventsToSend)
           else ((saveQueue (st1\<lparr>eventQueue := eventsToSend @ eventQueue st1\<rparr>))
                    \<lparr>isFlushing := False\<rparr>,
                 None))"

text \<open>
  How the awaited request ended: the promise resolved with a truthy \<open>response.success\<close>,
  resolved with a falsy one, or was rejected (\<open>ApiManager.request\<close> throws on a transport
  failure and on a non-2xx response).
\<close>

datatype delivery = Accepted | Refused | Thrown

text \<open>
  The part of \<open>flushQueue\<close> after the await, for a suspended call holding \<open>eventsToSend\<close>.
  The \<open>catch\<close> block only calls \<open>saveQueue()\<close>: \<open>eventsToSend\<close> is declared inside the
  \<open>try\<close> block and is not put back.  The \<open>finally\<close> block runs on every branch.
\<close>

definition flushQueue_resume :: "delivery \<Rightarrow> event list \<Rightarrow> analytics \<Rightarrow> analytics" where
  "flushQueue_resume d eventsToSend st =
     (case d of
        Accepted \<Rightarrow> clearQueueStorage st
      | Refused \<Rightarrow> saveQueue (st\<lparr>eventQueue := eventsToSend @ eventQueue st\<rparr>)
      | Thrown \<Rightarrow> saveQueue st)\<lparr>isFlushing := False\<rparr>"

text \<open>
  \<open>addToQueue\<close> calls \<open>flushQueue()\<close> without awaiting it, so it returns after the
  synchronous part of each flush; the snapshots of the flushes it left suspended are
  returned beside the state.
\<close>

definition suspended :: "'a option \<Rightarrow> 'a list" where
  "suspended p = (case p of None \<Rightarrow> [] | Some x \<Rightarrow> [x])"

definition addToQueue :: "bool \<Rightarrow> event \<Rightarrow> analytics \<Rightarrow> analytics \<times> event list list" where
  "addToQueue online ev st =
     (if \<not> trackingEnabled st then (st, [])
      else
        let (st1, p1) = (if length (eventQueue st) \<ge> maxQueueSize st
                         then flushQueue_start online st else (st, None));
            st2 = saveQueue (st1\<lparr>eventQueue := eventQueue st1 @ [ev]\<rparr>);
            (st3, p2) = (if isCriticalEvent ev
                         then flushQueue_start online st2 else (st2, None))
        in (st3, suspended p1 @ suspended p2))"

text \<open>
  \<open>trackEvent\<close> builds the event and hands it to \<open>addToQueue\<close>; the payload \<open>eventData\<close>
  (ids, time stamp, page) is passed in already serialised.
\<close>

definition trackEvent ::
  "bool \<Rightarrow> string \<Rightarrow> string \<Rightarrow> string option \<Rightarrow> string \<Rightarrow> analytics
     \<Rightarrow> analytics \<times> event list list" where
  "trackEvent online cat act lbl eventData st =
     addToQueue online
       \<lparr>ev_type = ''event'', category = cat, action = act, label = lbl, ev_data = eventData\<rparr> st"

text \<open>
  \<open>init\<close>: returns at once when tracking is disabled; disables tracking when
  \<open>navigator.doNotTrack === '1'\<close> and \<open>respectDNT\<close> is set; otherwise it establishes the
  session (the ids come from storage or are generated: parameters here) and tracks the
  page view, whose event is built from the browser environment (a parameter here).
\<close>

definition init ::
  "string option \<Rightarrow> string \<Rightarrow> string \<Rightarrow> string \<Rightarrow> bool \<Rightarrow> analytics
     \<Rightarrow> analytics \<times> event list list" where
  "init doNotTrack sid uid pageViewData online st =
     (if \<not> trackingEnabled st then (st, [])
      else if respectDNT st \<and> doNotTrack = Some ''1''
      then (st\<lparr>trackingEnabled := False\<rparr>, [])
      else addToQueue online
             \<lparr>ev_type = ''pageview'', category = ''system'', action = ''page_view'',
              label = None, ev_data = pageViewData\<rparr>
             (st\<lparr>sessionId := Some sid, userId := Some uid\<rparr>))"

text \<open>The state the module starts with (\<open>config\<close> and \<open>state\<close> literals), nothing persisted.\<close>

definition initial_analytics :: analytics where
  "initial_analytics =
     \<lparr>trackingEnabled = True, respectDNT = True, maxQueueSize = 100,
      sessionId = None, userId = None, eventQueue = [], isFlushing = False,
      storedQueue = None, trackRequests = []\<rparr>"

text \<open>A user event that is not critical: a link click.\<close>

definition click :: "string \<Rightarrow> event" where
  "click d = \<lparr>ev_type = ''event'', category = ''user'', action = ''click'',
              label = Some ''link_click'', ev_data = d\<rparr>"

subsection \<open>Properties of the telemetry queue\<close>

lemma flushQueue_resume_Refused_restores:
  "eventQueue (flushQueue_resume Refused snap st) = snap @ eventQueue st
   \<and> storedQueue (flushQueue_resume Refused snap st) = Some (snap @ eventQueue st)"
  by (simp add: flushQueue_resume_def saveQueue_def)

lemma flushQueue_start_offline_restores:
  "\<not> isFlushing st \<Longrightarrow>
   eventQueue (fst (flushQueue_start False st)) = eventQueue st
   \<and> snd (flushQueue_start False st) = None
   \<and> trackRequests (fst (flushQueue_start False st)) = trackRequests st"
  by (simp add: flushQueue_start_def saveQueue_def Let_def)

text \<open>
  C1.  Record A, B, C (none critical); flush while online; the request is rejected
  (a transport fault thrown by \<open>ApiManager.request\<close>); record D; flush again.  The claim
  asks for the second flush to carry [A, B, C, D]: after the thrown error the live
  buffer and its persisted copy are both empty, and the second flush carries [D] alone.
\<close>

theorem flushQueue_thrown_loses_snapshot:
  "(let s3 = fst (addToQueue True (click ''C'')
               (fst (addToQueue True (click ''B'')
                 (fst (addToQueue True (click ''A'') initial_analytics)))));
        (s4, p4) = flushQueue_start True s3;
        s5 = flushQueue_resume Thrown (the p4) s4;
        s6 = fst (addToQueue True (click ''D'') s5);
        (s7, p7) = flushQueue_start True s6
    in p4 = Some [click ''A'', click ''B'', click ''C'']
       \<and> eventQueue s5 = [] \<and> storedQueue s5 = Some []
       \<and> p7 = Some [click ''D'']
       \<and> map batch_events (trackRequests s7)
           = [[click ''A'', click ''B'', click ''C''], [click ''D'']])"
  by (simp add: addToQueue_def flushQueue_start_def flushQueue_resume_def saveQueue_def
      initial_analytics_def click_def isCriticalEvent_def suspended_def Let_def)

text \<open>
  C9.  Every way a flush that passed its guard can end resets \<open>isFlushing\<close>: the offline
  branch ends inside the synchronous part with the flag cleared and nothing suspended,
  and a suspended flush clears the flag when it resumes, whether the delivery was
  accepted, refused or threw.  While the request is outstanding the flag is set.
\<close>

theorem flushQueue_always_resets_isFlushing:
  "\<not> isFlushing (flushQueue_resume d snap st)
   \<and> (\<not> isFlushing st \<longrightarrow>
        (case flushQueue_start online st of
           (st', None) \<Rightarrow> \<not> isFlushing st'
         | (st', Some evs) \<Rightarrow> isFlushing st' \<and> \<not> isFlushing (flushQueue_resume d evs st')))"
  by (simp add: flushQueue_start_def flushQueue_resume_def saveQueue_def clearQueueStorage_def
      Let_def split: delivery.splits)

theorem flushQueue_always_resets_isFlushing_witness:
  "\<not> isFlushing (fst (addToQueue True (click ''A'') initial_analytics))
   \<and> snd (flushQueue_start True (fst (addToQueue True (click ''A'') initial_analytics)))
       = Some [click ''A'']
   \<and> (case flushQueue_start True (fst (addToQueue True (click ''A'') initial_analytics)) of
        (st', None) \<Rightarrow> \<not> isFlushing st'
      | (st', Some evs) \<Rightarrow> isFlushing st' \<and> \<not> isFlushing (flushQueue_resume Thrown evs st'))"
  using flushQueue_always_resets_isFlushing
    [of Thrown "[]" "fst (addToQueue True (click ''A'') initial_analytics)" True]
  by (simp add: addToQueue_def flushQueue_start_def initial_analytics_def click_def
      isCriticalEvent_def saveQueue_def suspended_def Let_def)

text \<open>
  C10.  With tracking disabled \<open>addToQueue\<close> returns the state as it was (event queue,
  persisted copy, flush flag and request log included) and leaves no flush suspended; so
  does every tracking call built on it.  When \<open>init\<close> meets Do-Not-Track with
  \<open>respectDNT\<close> set it changes nothing but \<open>trackingEnabled\<close>, which it clears, so every
  later \<open>addToQueue\<close> is such a no-op.
\<close>

theorem addToQueue_disabled_is_noop:
  "(\<not> trackingEnabled st \<longrightarrow>
      addToQueue online ev st = (st, [])
      \<and> trackEvent online cat act lbl d st = (st, []))
   \<and> (trackingEnabled st \<and> respectDNT st \<longrightarrow>
        (let st' = fst (init (Some ''1'') sid uid pv online st)
         in st' = st\<lparr>trackingEnabled := False\<rparr>
            \<and> snd (init (Some ''1'') sid uid pv online st) = []
            \<and> addToQueue online' ev st' = (st', [])))"
  by (simp add: addToQueue_def trackEvent_def init_def)

theorem addToQueue_disabled_is_noop_witness:
  "trackingEnabled initial_analytics \<and> respectDNT initial_analytics
   \<and> \<not> trackingEnabled (initial_analytics\<lparr>trackingEnabled := False\<rparr>)
   \<and> addToQueue True (click ''A'') (initial_analytics\<lparr>trackingEnabled := False\<rparr>)
       = (initial_analytics\<lparr>trackingEnabled := False\<rparr>, [])
   \<and> fst (init (Some ''1'') ''s'' ''u'' ''pv'' True initial_analytics)
       = initial_analytics\<lparr>trackingEnabled := False\<rparr>"
  using addToQueue_disabled_is_noop
    [of "initial_analytics\<lparr>trackingEnabled := False\<rparr>" True "click ''A''"
        "''user''" "''click''" None "''d''" "''s''" "''u''" "''pv''" True]
    addToQueue_disabled_is_noop
    [of initial_analytics True "click ''A''"
        "''user''" "''click''" None "''d''" "''s''" "''u''" "''pv''" True]
  by (simp add: initial_analytics_def Let_def)

section \<open>JSON values\<close>

text \<open>
  What \<open>JSON.parse\<close> and \<open>response.json()\<close> produce.  An object is the list of its
  members in key order.
\<close>

datatype json =
    JNull
  | JBool bool
  | JNum int
  | JStr string
  | JArr "json list"
  | JObj "(string \<times> json) list"

text \<open>
  \<open>value.name\<close> for a value that is neither \<open>null\<close> nor \<open>undefined\<close>: the member of an
  object, \<open>undefined\<close> (\<open>None\<close>) otherwise.  Reading a property of \<open>null\<close> or \<open>undefined\<close>
  throws a TypeError; the callers below treat that case before they use \<open>get_prop\<close>.
\<close>

fun get_prop :: "string \<Rightarrow> json \<Rightarrow> json option" where
  "get_prop name (JObj members) = map_of members name"
| "get_prop name _ = None"

text \<open>JavaScript truthiness of a value that may be \<open>undefined\<close>, as \<open>||\<close> and \<open>if\<close> test it.\<close>

fun truthy :: "json option \<Rightarrow> bool" where
  "truthy None = False"
| "truthy (Some JNull) = False"
| "truthy (Some (JBool b)) = b"
| "truthy (Some (JNum n)) = (n \<noteq> 0)"
| "truthy (Some (JStr s)) = (s \<noteq> [])"
| "truthy (Some (JArr _)) = True"
| "truthy (Some (JObj _)) = True"

section \<open>Offline synchronisation (LocalDataService, SyncService)\<close>

subsection \<open>The persistent store\<close>

text \<open>
  An entry of the offline queue is the object \<open>saveOfflineData\<close> pushes:
  \<open>{type, data, timestamp, id}\<close>.  \<open>type\<close> is whatever the caller passed as first
  argument: a kind name, or (from the call in \<open>syncOfflineData\<close>) an array of entries.
  \<open>data\<close> is \<open>None\<close> when the caller passed none (\<open>JSON.stringify\<close> drops the member).
\<close>

datatype offline_item =
    OfflineItem (item_type: item_kind) (item_data: "json option")
                (item_timestamp: string) (item_id: string)
and item_kind =
    KindName string
  | KindItems "offline_item list"

record user_response =
  responses :: json
  response_timestamp :: string
  synced :: bool
  syncTime :: "string option"

text \<open>
  The localStorage keys of LocalDataService, \<open>None\<close> when a key is absent.  The user
  responses are the members of the stored object, in the order \<open>Object.keys\<close> lists them.
\<close>

record local_store =
  offlineData :: "offline_item list option"
  userResponses :: "(string \<times> user_response) list option"
  surveys :: "json option"
  results :: "json option"

definition getOfflineData :: "local_store \<Rightarrow> offline_item list" where
  "getOfflineData s = (case offlineData s of None \<Rightarrow> [] | Some items \<Rightarrow> items)"

text \<open>
  \<open>saveOfflineData(type, data)\<close> reads the stored queue, pushes one new entry and writes
  the queue back.  The time stamp and \<open>Utils.generateId()\<close> are parameters.
\<close>

definition saveOfflineData ::
  "item_kind \<Rightarrow> json option \<Rightarrow> string \<Rightarrow> string \<Rightarrow> local_store \<Rightarrow> local_store" where
  "saveOfflineData ty d now newId s =
     s\<lparr>offlineData := Some (getOfflineData s @ [OfflineItem ty d now newId])\<rparr>"

definition getUserResponses :: "local_store \<Rightarrow> (string \<times> user_response) list" where
  "getUserResponses s = (case userResponses s of None \<Rightarrow> [] | Some rs \<Rightarrow> rs)"

text \<open>
  \<open>saveUserResponse(surveyId, responses)\<close> reads the stored object and overwrites the
  member \<open>surveyId\<close> with a new object \<open>{responses, timestamp}\<close>, which has no \<open>synced\<close>
  and no \<open>syncTime\<close> member.
\<close>

definition saveUserResponse :: "string \<Rightarrow> json \<Rightarrow> string \<Rightarrow> local_store \<Rightarrow> local_store" where
  "saveUserResponse surveyId resps now s =
     s\<lparr>userResponses := Some (AList.update surveyId
          \<lparr>responses = resps, response_timestamp = now, synced = False, syncTime = None\<rparr>
          (getUserResponses s))\<rparr>"

definition saveSurveys :: "json \<Rightarrow> local_store \<Rightarrow> local_store" where
  "saveSurveys v s = s\<lparr>surveys := Some v\<rparr>"

definition saveResults :: "json \<Rightarrow> local_store \<Rightarrow> local_store" where
  "saveResults v s = s\<lparr>results := Some v\<rparr>"

subsection \<open>The remote service, as the sync engine sees it\<close>

text \<open>
  The ApiManager operations the sync engine awaits, with their arguments (\<open>None\<close> for an
  argument that is \<open>undefined\<close>).  The remote side is a parameter \<open>send\<close>: the value the
  awaited promise resolves to, or \<open>None\<close> when it is rejected.
\<close>

datatype remote_call =
    SubmitSurveyResponse "json option" "json option"
  | CreateSurvey "json option"
  | PostFeedback "json option"
  | GetActiveSurveys
  | GetRecentResults

type_synonym remote = "remote_call \<Rightarrow> json option"

definition initial_store :: local_store where
  "initial_store = \<lparr>offlineData = None, userResponses = None, surveys = None, results = None\<rparr>"

subsection \<open>Phase 1: replaying the offline queue\<close>

text \<open>
  The body of the \<open>try\<close> block for one entry: whether it ran to its end (so that the
  entry's id is pushed onto \<open>successfulSyncs\<close>) and the calls it made.  The \<open>switch\<close>
  compares \<open>item.type\<close> with three string literals; anything else, an array included,
  takes the \<open>default\<close> branch, which only warns.  For a \<open>survey_response\<close> entry, reading
  \<open>item.data.surveyId\<close> throws when \<open>item.data\<close> is \<open>undefined\<close> or \<open>null\<close>.
\<close>

definition replay_item :: "remote \<Rightarrow> offline_item \<Rightarrow> bool \<times> remote_call list" where
  "replay_item send item =
     (case item_type item of
        KindItems _ \<Rightarrow> (True, [])
      | KindName t \<Rightarrow>
          if t = ''survey_response'' then
            (case item_data item of
               None \<Rightarrow> (False, [])
             | Some JNull \<Rightarrow> (False, [])
             | Some d \<Rightarrow>
                 (let c = SubmitSurveyResponse (get_prop ''surveyId'' d) (get_prop ''responses'' d)
                  in (send c \<noteq> None, [c])))
          else if t = ''survey_creation'' then
            (let c = CreateSurvey (item_data item) in (send c \<noteq> None, [c]))
          else if t = ''user_feedback'' then
            (let c = PostFeedback (item_data item) in (send c \<noteq> None, [c]))
          else (True, []))"

text \<open>
  The \<open>for\<close> loop over the queue: \<open>successfulSyncs\<close> (ids), \<open>failedSyncs\<close> (entries) and
  the calls made, each in queue order.
\<close>

fun replay_all ::
  "remote \<Rightarrow> offline_item list \<Rightarrow> string list \<times> offline_item list \<times> remote_call list" where
  "replay_all send [] = ([], [], [])"
| "replay_all send (item # items) =
     (let (ok, cs) = replay_item send item;
          (successfulSyncs, failedSyncs, calls) = replay_all send items
      in if ok then (item_id item # successfulSyncs, failedSyncs, cs @ calls)
         else (successfulSyncs, item # failedSyncs, cs @ calls))"

text \<open>
  \<open>syncOfflineData\<close>.  When at least one entry succeeded, the entries that did not are
  computed as \<open>remainingData\<close> and passed to \<open>LocalDataService.saveOfflineData\<close> as its
  only argument, that is, as \<open>type\<close>, with \<open>data\<close> undefined.  The failed entries are only
  counted in a log message.  No other writer of the store runs during the phase.
\<close>

definition syncOfflineData ::
  "remote \<Rightarrow> string \<Rightarrow> string \<Rightarrow> local_store \<Rightarrow> local_store \<times> remote_call list" where
  "syncOfflineData send now newId s =
     (let offline = getOfflineData s
      in if offline = [] then (s, [])
         else
           (let (successfulSyncs, failedSyncs, calls) = replay_all send offline
            in (if successfulSyncs \<noteq> []
                then saveOfflineData
                       (KindItems (filter (\<lambda>item. item_id item \<notin> set successfulSyncs) offline))
                       None now newId s
                else s,
                calls)))"

subsection \<open>Phase 2: refreshing the local snapshots\<close>

definition updateLocalData :: "remote \<Rightarrow> local_store \<Rightarrow> local_store \<times> remote_call list" where
  "updateLocalData send s =
     (case send GetActiveSurveys of
        None \<Rightarrow> (s, [GetActiveSurveys])
      | Some sv \<Rightarrow>
          (let s1 = saveSurveys sv s
           in case send GetRecentResults of
                None \<Rightarrow> (s1, [GetActiveSurveys, GetRecentResults])
              | Some rs \<Rightarrow> (saveResults rs s1, [GetActiveSurveys, GetRecentResults])))"

subsection \<open>Phase 3: reconciling the user's responses\<close>

text \<open>
  The loop of \<open>syncUserResponses\<close> over \<open>surveyIds\<close>.  \<open>snapshot\<close> is the local variable
  \<open>userResponses\<close>, parsed once before the loop; on a successful submission the loop
  sets \<open>synced\<close> and \<open>syncTime\<close> in the snapshot and then calls
  \<open>LocalDataService.saveUserResponse(surveyId, response.responses)\<close>, which is the only
  write to the store.  The snapshot itself is never written back.  The calls made so
  far are carried along.
\<close>

fun syncUserResponses_loop ::
  "remote \<Rightarrow> string \<Rightarrow> string list \<Rightarrow> (string \<times> user_response) list \<Rightarrow> local_store
     \<Rightarrow> remote_call list \<Rightarrow> local_store \<times> remote_call list" where
  "syncUserResponses_loop send now [] snapshot s calls = (s, calls)"
| "syncUserResponses_loop send now (surveyId # surveyIds) snapshot s calls =
     (case map_of snapshot surveyId of
        None \<Rightarrow> syncUserResponses_loop send now surveyIds snapshot s calls
      | Some response \<Rightarrow>
          if \<not> synced response then
            (case send (SubmitSurveyResponse (Some (JStr surveyId)) (Some (responses response))) of
               None \<Rightarrow>
                 syncUserResponses_loop send now surveyIds snapshot s
                   (calls @ [SubmitSurveyResponse (Some (JStr surveyId))
                               (Some (responses response))])
             | Some _ \<Rightarrow>
                 syncUserResponses_loop send now surveyIds
                   (AList.update surveyId
                      (response\<lparr>synced := True, syncTime := Some now\<rparr>) snapshot)
                   (saveUserResponse surveyId (responses response) now s)
                   (calls @ [SubmitSurveyResponse (Some (JStr surveyId))
                               (Some (responses response))]))
          else syncUserResponses_loop send now surveyIds snapshot s calls)"

definition syncUserResponses ::
  "remote \<Rightarrow> string \<Rightarrow> local_store \<Rightarrow> local_store \<times> remote_call list" where
  "syncUserResponses send now s =
     (let snapshot = getUserResponses s
      in syncUserResponses_loop send now (map fst snapshot) snapshot s [])"

subsection \<open>A sync run\<close>

record sync_service =
  isSyncing :: bool
  lastSyncTime :: "string option"
  store :: local_store

text \<open>
  \<open>syncAllData\<close> up to its first await: \<open>None\<close> when the call returns at one of the two
  guards, otherwise the state with the flag set.
\<close>

definition syncAllData_begin :: "bool \<Rightarrow> sync_service \<Rightarrow> sync_service option" where
  "syncAllData_begin online sv =
     (if isSyncing sv then None
      else if \<not> online then None
      else Some (sv\<lparr>isSyncing := True\<rparr>))"

text \<open>The three awaited phases, in order, each on the store the previous one left.\<close>

definition syncAllData_phases ::
  "remote \<Rightarrow> string \<Rightarrow> string \<Rightarrow> local_store \<Rightarrow> local_store \<times> remote_call list" where
  "syncAllData_phases send now newId s =
     (let (s1, calls1) = syncOfflineData send now newId s;
          (s2, calls2) = updateLocalData send s1;
          (s3, calls3) = syncUserResponses send now s2
      in (s3, calls1 @ calls2 @ calls3))"

text \<open>The end of the \<open>try\<close> block and the \<open>finally\<close> block.\<close>

definition syncAllData_end :: "string \<Rightarrow> sync_service \<Rightarrow> sync_service" where
  "syncAllData_end now sv = sv\<lparr>lastSyncTime := Some now, isSyncing := False\<rparr>"

text \<open>
  A whole call of \<open>syncAllData\<close> with nothing else running between its awaits: the state
  it leaves and the calls it made.
\<close>

definition syncAllData ::
  "bool \<Rightarrow> remote \<Rightarrow> string \<Rightarrow> string \<Rightarrow> sync_service \<Rightarrow> sync_service \<times> remote_call list" where
  "syncAllData online send now newId sv =
     (case syncAllData_begin online sv of
        None \<Rightarrow> (sv, [])
      | Some sv1 \<Rightarrow>
          (let (s', calls) = syncAllData_phases send now newId (store sv1)
           in (syncAllData_end now (sv1\<lparr>store := s'\<rparr>), calls)))"

definition idle_service :: "local_store \<Rightarrow> sync_service" where
  "idle_service s = \<lparr>isSyncing = False, lastSyncTime = None, store = s\<rparr>"

text \<open>A remote side that rejects every call, and one that accepts every call.\<close>

definition unreachable :: remote where
  "unreachable c = None"

definition accepting :: remote where
  "accepting c = Some (JObj [(''success'', JBool True)])"

text \<open>Two stored records used in the examples below.\<close>

definition queued_response :: offline_item where
  "queued_response =
     OfflineItem (KindName ''survey_response'')
       (Some (JObj [(''surveyId'', JStr ''s1''), (''responses'', JArr [JStr ''yes''])]))
       ''t0'' ''m1''"

definition local_answer :: user_response where
  "local_answer = \<lparr>responses = JArr [JStr ''yes''], response_timestamp = ''t0'',
                    synced = False, syncTime = None\<rparr>"

subsection \<open>Properties of the sync engine\<close>

text \<open>The ids on \<open>successfulSyncs\<close> are those of the entries whose \<open>try\<close> block ran through.\<close>

lemma replay_all_successfulSyncs:
  "fst (replay_all send items) = map item_id (filter (\<lambda>i. fst (replay_item send i)) items)"
  by (induction items) (auto simp: Let_def split: prod.splits)

text \<open>
  Whatever the remote side answers, phase 1 leaves every entry of the queue where it
  was: the queue after the phase starts with the queue before it.
\<close>

lemma syncOfflineData_keeps_queue:
  "prefix (getOfflineData s) (getOfflineData (fst (syncOfflineData send now newId s)))"
  by (simp add: syncOfflineData_def saveOfflineData_def getOfflineData_def Let_def
      split: prod.splits option.splits)

text \<open>
  Phase 3.  The loop is unfolded one survey id at a time: the id is skipped (no such
  record, or a record already marked), or its submission is rejected, or it resolves.
\<close>

lemma set_update_subset: "set (AList.update k v al) \<subseteq> insert (k, v) (set al)"
  by (induction al) auto

lemma saveUserResponse_keys:
  "k \<in> fst ` set (getUserResponses s) \<Longrightarrow>
   map fst (getUserResponses (saveUserResponse k r now s)) = map fst (getUserResponses s)"
  by (simp add: saveUserResponse_def getUserResponses_def update_keys)

lemma saveUserResponse_synced:
  assumes mem: "(k', r') \<in> set (getUserResponses (saveUserResponse k r now s))"
    and marked: "synced r'"
  shows "(k', r') \<in> set (getUserResponses s)"
proof -
  let ?v = "\<lparr>responses = r, response_timestamp = now, synced = False, syncTime = None\<rparr>"
  have upd: "(k', r') \<in> set (AList.update k ?v (getUserResponses s))"
    using mem by (simp add: saveUserResponse_def getUserResponses_def)
  have "(k', r') \<in> insert (k, ?v) (set (getUserResponses s))"
    by (rule subsetD [OF set_update_subset upd])
  then have "(k', r') = (k, ?v) \<or> (k', r') \<in> set (getUserResponses s)"
    by simp
  moreover have "r' \<noteq> ?v"
    using marked by (cases r') simp
  ultimately show ?thesis by simp
qed

lemma syncUserResponses_loop_skip:
  "map_of snap k = None \<or> (\<exists>r. map_of snap k = Some r \<and> synced r) \<Longrightarrow>
   syncUserResponses_loop send now (k # ids) snap s calls
     = syncUserResponses_loop send now ids snap s calls"
  by (cases "map_of snap k") simp_all

lemma syncUserResponses_loop_rejected:
  "map_of snap k = Some r \<Longrightarrow> \<not> synced r \<Longrightarrow>
   send (SubmitSurveyResponse (Some (JStr k)) (Some (responses r))) = None \<Longrightarrow>
   syncUserResponses_loop send now (k # ids) snap s calls
     = syncUserResponses_loop send now ids snap s
         (calls @ [SubmitSurveyResponse (Some (JStr k)) (Some (responses r))])"
  by simp

lemma syncUserResponses_loop_resolved:
  "map_of snap k = Some r \<Longrightarrow> \<not> synced r \<Longrightarrow>
   send (SubmitSurveyResponse (Some (JStr k)) (Some (responses r))) = Some v \<Longrightarrow>
   syncUserResponses_loop send now (k # ids) snap s calls
     = syncUserResponses_loop send now ids
         (AList.update k (r\<lparr>synced := True, syncTime := Some now\<rparr>) snap)
         (saveUserResponse k (responses r) now s)
         (calls @ [SubmitSurveyResponse (Some (JStr k)) (Some (responses r))])"
  by simp

lemma syncUserResponses_loop_cases:
  obtains
    (skip) "syncUserResponses_loop send now (k # ids) snap s calls
              = syncUserResponses_loop send now ids snap s calls"
  | (rejected) r where "map_of snap k = Some r"
      "syncUserResponses_loop send now (k # ids) snap s calls
         = syncUserResponses_loop send now ids snap s
             (calls @ [SubmitSurveyResponse (Some (JStr k)) (Some (responses r))])"
  | (resolved) r where "map_of snap k = Some r" "\<not> synced r"
      "syncUserResponses_loop send now (k # ids) snap s calls
         = syncUserResponses_loop send now ids
             (AList.update k (r\<lparr>synced := True, syncTime := Some now\<rparr>) snap)
             (saveUserResponse k (responses r) now s)
             (calls @ [SubmitSurveyResponse (Some (JStr k)) (Some (responses r))])"
proof (cases "map_of snap k")
  case None
  then show ?thesis using skip syncUserResponses_loop_skip by metis
next
  case (Some r)
  show ?thesis
  proof (cases "synced r")
    case True
    then show ?thesis using skip syncUserResponses_loop_skip Some by metis
  next
    case False
    show ?thesis
    proof (cases "send (SubmitSurveyResponse (Some (JStr k)) (Some (responses r)))")
      case None
      then show ?thesis using rejected syncUserResponses_loop_rejected Some False by metis
    next
      case (Some v)
      then show ?thesis using resolved syncUserResponses_loop_resolved \<open>map_of snap k = Some r\<close> False by metis
    qed
  qed
qed

text \<open>
  No record in the store is marked \<open>synced\<close> by the loop: a record that carries the flag
  afterwards carried it before.  And the loop keeps every stored survey id, in place.
\<close>

lemma syncUserResponses_loop_never_marks:
  "(k', r') \<in> set (getUserResponses (fst (syncUserResponses_loop send now ids snap s calls))) \<Longrightarrow>
   synced r' \<Longrightarrow> (k', r') \<in> set (getUserResponses s)"
proof (induction ids arbitrary: snap s calls)
  case Nil
  then show ?case by simp
next
  case (Cons k ids)
  show ?case
  proof (cases rule: syncUserResponses_loop_cases [of send now k ids snap s calls])
    case skip
    then show ?thesis using Cons.IH Cons.prems by simp
  next
    case (rejected r)
    then show ?thesis using Cons.IH Cons.prems by simp
  next
    case (resolved r)
    then have "(k', r') \<in> set (getUserResponses (saveUserResponse k (responses r) now s))"
      using Cons.IH Cons.prems by simp
    then show ?thesis using Cons.prems(2) by (rule saveUserResponse_synced)
  qed
qed

lemma syncUserResponses_loop_keys:
  "fst ` set snap \<subseteq> fst ` set (getUserResponses s) \<Longrightarrow>
   map fst (getUserResponses (fst (syncUserResponses_loop send now ids snap s calls)))
     = map fst (getUserResponses s)"
proof (induction ids arbitrary: snap s calls)
  case Nil
  then show ?case by simp
next
  case (Cons k ids)
  show ?case
  proof (cases rule: syncUserResponses_loop_cases [of send now k ids snap s calls])
    case skip
    then show ?thesis using Cons.IH [OF Cons.prems] by simp
  next
    case (rejected r)
    then show ?thesis using Cons.IH [OF Cons.prems] by simp
  next
    case (resolved r)
    let ?snap' = "AList.update k (r\<lparr>synced := True, syncTime := Some now\<rparr>) snap"
    let ?s' = "saveUserResponse k (responses r) now s"
    have "(k, r) \<in> set snap" using resolved(1) by (rule map_of_SomeD)
    then have "k \<in> fst ` set snap" by force
    then have k_in: "k \<in> fst ` set (getUserResponses s)" using Cons.prems by (rule subsetD [rotated])
    have keys': "map fst (getUserResponses ?s') = map fst (getUserResponses s)"
      using k_in by (rule saveUserResponse_keys)
    have "fst ` set (getUserResponses ?s') = fst ` set (getUserResponses s)"
      using arg_cong [OF keys', of set] by simp
    moreover have "fst ` set ?snap' = {k} \<union> fst ` set snap" by (rule dom_update)
    ultimately have "fst ` set ?snap' \<subseteq> fst ` set (getUserResponses ?s')"
      using k_in Cons.prems by simp
    from Cons.IH [OF this] keys' resolved(3) show ?thesis by simp
  qed
qed

lemma syncUserResponses_keys:
  "map fst (getUserResponses (fst (syncUserResponses send now s)))
     = map fst (getUserResponses s)"
  by (simp add: syncUserResponses_def Let_def syncUserResponses_loop_keys)

lemma syncUserResponses_never_marks:
  "(k, r) \<in> set (getUserResponses (fst (syncUserResponses send now s))) \<Longrightarrow>
   synced r \<Longrightarrow> (k, r) \<in> set (getUserResponses s)"
  unfolding syncUserResponses_def Let_def by (rule syncUserResponses_loop_never_marks)


text \<open>
  C2.  One queued \<open>survey_response\<close> entry; the first run cannot reach the service, the
  second one can.  After the first run the entry is still queued, as the claim says.
  After the second run the claim wants it gone: it is still the first entry of the
  queue, followed by a new entry whose \<open>type\<close> is the (empty) array \<open>remainingData\<close>.
\<close>

theorem syncOfflineData_keeps_acknowledged_entry:
  "(let sv0 = idle_service (initial_store\<lparr>offlineData := Some [queued_response]\<rparr>);
        (sv1, calls1) = syncAllData True unreachable ''t1'' ''m2'' sv0;
        (sv2, calls2) = syncAllData True accepting ''t2'' ''m3'' sv1
    in getOfflineData (store sv1) = [queued_response]
       \<and> SubmitSurveyResponse (Some (JStr ''s1'')) (Some (JArr [JStr ''yes''])) \<in> set calls2
       \<and> getOfflineData (store sv2)
           = [queued_response, OfflineItem (KindItems []) None ''t2'' ''m3'']
       \<and> queued_response \<in> set (getOfflineData (store sv2)))"
  by (simp add: syncAllData_def syncAllData_begin_def syncAllData_phases_def syncAllData_end_def
      syncOfflineData_def updateLocalData_def syncUserResponses_def replay_item_def
      saveOfflineData_def getOfflineData_def getUserResponses_def saveSurveys_def saveResults_def
      idle_service_def initial_store_def queued_response_def unreachable_def accepting_def
      Let_def)

text \<open>
  C3.  One local response without a confirmation flag; the service accepts every call.
  The run submits it and the local copy stays, but the record written back by
  \<open>saveUserResponse\<close> carries no \<open>synced\<close> flag, so the next run submits it again.
\<close>

theorem syncUserResponses_confirmation_not_stored:
  "(let sv0 = idle_service (initial_store\<lparr>userResponses := Some [(''s1'', local_answer)]\<rparr>);
        (sv1, calls1) = syncAllData True accepting ''t1'' ''m1'' sv0;
        (sv2, calls2) = syncAllData True accepting ''t2'' ''m2'' sv1
    in getUserResponses (store sv1) = [(''s1'', local_answer\<lparr>response_timestamp := ''t1''\<rparr>)]
       \<and> \<not> synced (local_answer\<lparr>response_timestamp := ''t1''\<rparr>)
       \<and> calls1 = [GetActiveSurveys, GetRecentResults,
                    SubmitSurveyResponse (Some (JStr ''s1'')) (Some (JArr [JStr ''yes'']))]
       \<and> calls2 = calls1)"
  by (simp add: syncAllData_def syncAllData_begin_def syncAllData_phases_def syncAllData_end_def
      syncOfflineData_def updateLocalData_def syncUserResponses_def
      saveUserResponse_def getOfflineData_def getUserResponses_def saveSurveys_def saveResults_def
      idle_service_def initial_store_def local_answer_def accepting_def Let_def)

text \<open>
  C8.  A call of \<open>syncAllData\<close> while a run is in progress returns at the first guard: the
  service state (flag, last sync time, store) is what it was and no call is made.  From
  idle and online, the call sets the flag and nothing else before its first await; a
  second call made at that point is such a no-op; the end of the run clears the flag.
\<close>

theorem syncAllData_while_syncing_is_noop:
  "(isSyncing sv \<longrightarrow>
      syncAllData online send now newId sv = (sv, []) \<and> syncAllData_begin online sv = None)
   \<and> (\<not> isSyncing sv \<and> online \<longrightarrow>
        (case syncAllData_begin online sv of
           None \<Rightarrow> False
         | Some sv1 \<Rightarrow>
             sv1 = sv\<lparr>isSyncing := True\<rparr>
             \<and> syncAllData online2 send2 now2 newId2 sv1 = (sv1, [])
             \<and> \<not> isSyncing (syncAllData_end now (sv1\<lparr>store := s'\<rparr>)))
        \<and> \<not> isSyncing (fst (syncAllData online send now newId sv)))"
  by (simp add: syncAllData_def syncAllData_begin_def syncAllData_end_def split: prod.splits)

theorem syncAllData_while_syncing_is_noop_witness:
  "isSyncing ((idle_service initial_store)\<lparr>isSyncing := True\<rparr>)
   \<and> syncAllData True accepting ''t1'' ''m1'' ((idle_service initial_store)\<lparr>isSyncing := True\<rparr>)
       = ((idle_service initial_store)\<lparr>isSyncing := True\<rparr>, [])
   \<and> \<not> isSyncing (idle_service initial_store)
   \<and> syncAllData_begin True (idle_service initial_store)
       = Some ((idle_service initial_store)\<lparr>isSyncing := True\<rparr>)
   \<and> \<not> isSyncing (fst (syncAllData True accepting ''t1'' ''m1'' (idle_service initial_store)))"
  using syncAllData_while_syncing_is_noop
    [of "(idle_service initial_store)\<lparr>isSyncing := True\<rparr>" True accepting "''t1''" "''m1''"
        True accepting "''t1''" "''m1''" initial_store]
    syncAllData_while_syncing_is_noop
    [of "idle_service initial_store" True accepting "''t1''" "''m1''"
        True accepting "''t1''" "''m1''" initial_store]
  by (simp add: idle_service_def syncAllData_begin_def split: option.splits)

section \<open>Request gateway (ApiManager)\<close>

subsection \<open>Requests and responses\<close>

text \<open>
  The \<open>options\<close> argument of \<open>request\<close>; \<open>None\<close> is a member the caller did not pass.
  The attempt count is a natural number.
\<close>

record options =
  opt_method :: "string option"
  opt_headers :: "(string \<rightharpoonup> string) option"
  opt_body :: "string option"
  noCache :: bool
  opt_timeout :: "nat option"
  retryAttempts :: "nat option"

definition default_options :: options where
  "default_options =
     \<lparr>opt_method = None, opt_headers = None, opt_body = None, noCache = False,
      opt_timeout = None, retryAttempts = None\<rparr>"

text \<open>What \<open>fetch\<close> is called with.\<close>

record fetch_request =
  req_url :: string
  req_method :: string
  req_headers :: "string \<rightharpoonup> string"
  req_body :: "string option"
  req_timeout :: nat

text \<open>
  What \<open>handleResponse\<close> reads of a Response: \<open>ok\<close>, \<open>status\<close>, the content-type header,
  and the body, as \<open>response.json()\<close> decodes it (\<open>None\<close> when the body is not JSON and
  the promise is rejected with a SyntaxError) and as \<open>response.text()\<close> returns it.
\<close>

record response =
  ok :: bool
  status :: nat
  contentType :: "string option"
  json_body :: "json option"
  text_body :: string

text \<open>
  What a caller of \<open>request\<close> can catch: the error \<open>fetch\<close> was rejected with (network
  failure, or the abort fired by the per-attempt timer), the \<open>ApiError\<close> built by
  \<open>handleResponse\<close> (message, status, errors), or a SyntaxError or TypeError raised while
  the response was being handled.
\<close>

datatype fault =
    TransportFault string
  | ApiError json nat json
  | SyntaxError
  | TypeError

definition baseUrl :: string where
  "baseUrl = ''https://api.voiceofhadhramaut.org/v1''"

definition config_headers :: "string \<rightharpoonup> string" where
  "config_headers =
     [''Content-Type'' \<mapsto> ''application/json'', ''Accept'' \<mapsto> ''application/json'',
      ''Accept-Language'' \<mapsto> ''ar'']"

definition config_timeout :: nat where
  "config_timeout = 30000"

definition config_retryAttempts :: nat where
  "config_retryAttempts = 3"

text \<open>The default message of \<open>handleResponse\<close>, as the UTF-8 bytes of the Arabic literal.\<close>

definition default_message :: string where
  "default_message = map char_of [216, 173, 216, 175, 216, 171, 32, 216, 174, 216, 183, 216, 163, 32, 217, 129, 217, 138, 32, 216, 167, 217, 132, 216, 174, 216, 167, 216, 175, 217, 133 :: nat]"

text \<open>\<open>haystack.includes(needle)\<close>.\<close>

fun str_includes :: "string \<Rightarrow> string \<Rightarrow> bool" where
  "str_includes [] needle = (needle = [])"
| "str_includes (c # cs) needle = (prefix needle (c # cs) \<or> str_includes cs needle)"

text \<open>
  \<open>JSON.stringify\<close> of a string: the string in double quotes, with the double quote and
  the backslash escaped (the escapes of control characters are left out).
\<close>

fun json_escape :: "string \<Rightarrow> string" where
  "json_escape [] = []"
| "json_escape (c # cs) =
     (if c = CHR 0x22 \<or> c = CHR 0x5C then CHR 0x5C # c # json_escape cs
      else c # json_escape cs)"

definition JSON_stringify :: "string \<Rightarrow> string" where
  "JSON_stringify s = CHR 0x22 # json_escape s @ [CHR 0x22]"

text \<open>
  \<open>generateCacheKey\<close>: the template literal prints an absent method as \<open>undefined\<close>; an
  absent or empty body gives empty \<open>params\<close>.
\<close>

definition generateCacheKey :: "string \<Rightarrow> options \<Rightarrow> string" where
  "generateCacheKey endpoint options =
     (let params = (case opt_body options of
                      None \<Rightarrow> []
                    | Some b \<Rightarrow> if b = [] then [] else JSON_stringify b)
      in endpoint @ ''_''
         @ (case opt_method options of None \<Rightarrow> ''undefined'' | Some m \<Rightarrow> m)
         @ ''_'' @ params)"

subsection \<open>fetchWithRetry\<close>

text \<open>
  The network is a parameter \<open>transport\<close>: what the \<open>i\<close>-th call of \<open>fetch\<close> made by one
  \<open>fetchWithRetry\<close> does, reject with an error or resolve with a response (of any
  status).  The function returns, beside its result, what it did: the fetches, by loop
  index, and the waits, in milliseconds.
\<close>

datatype effect = Fetch nat | Delay nat

datatype fetch_result = Returned response | Threw fault | ReturnedUndefined

function fetchWithRetry_loop ::
  "(nat \<Rightarrow> string + response) \<Rightarrow> nat \<Rightarrow> nat \<Rightarrow> effect list \<Rightarrow> fetch_result \<times> effect list"
  where
  "fetchWithRetry_loop transport attempts i log =
     (if i < attempts then
        (case transport i of
           Inr response \<Rightarrow> (Returned response, log @ [Fetch i])
         | Inl error \<Rightarrow>
             if i = attempts - 1 then (Threw (TransportFault error), log @ [Fetch i])
             else fetchWithRetry_loop transport attempts (i + 1)
                    (log @ [Fetch i, Delay (2 ^ i * 1000)]))
      else (ReturnedUndefined, log))"
  by pat_completeness auto
termination
  by (relation "measure (\<lambda>(transport, attempts, i, log). attempts - i)") auto

definition fetchWithRetry ::
  "(nat \<Rightarrow> string + response) \<Rightarrow> nat \<Rightarrow> fetch_result \<times> effect list" where
  "fetchWithRetry transport attempts = fetchWithRetry_loop transport attempts 0 []"

subsection \<open>handleResponse\<close>

text \<open>
  The body is read as JSON when the content type contains \<open>application/json\<close>, as text
  otherwise.  For a response that is not \<open>ok\<close> the arguments of \<open>new ApiError\<close> are
  evaluated first: \<open>data.message\<close> throws a TypeError when \<open>data\<close> is \<open>null\<close>.
  A missing \<open>data.errors\<close> becomes the constructor's default \<open>[]\<close>.
\<close>

definition read_body :: "response \<Rightarrow> fault + json" where
  "read_body response =
     (case contentType response of
        None \<Rightarrow> Inr (JStr (text_body response))
      | Some ct \<Rightarrow>
          if ct \<noteq> [] \<and> str_includes ct ''application/json''
          then (case json_body response of None \<Rightarrow> Inl SyntaxError | Some j \<Rightarrow> Inr j)
          else Inr (JStr (text_body response)))"

definition handleResponse :: "response \<Rightarrow> fault + json" where
  "handleResponse response =
     (case read_body response of
        Inl e \<Rightarrow> Inl e
      | Inr data \<Rightarrow>
          if \<not> ok response then
            (if data = JNull then Inl TypeError
             else Inl (ApiError
                    (if truthy (get_prop ''message'' data)
                     then the (get_prop ''message'' data) else JStr default_message)
                    (status response)
                    (case get_prop ''errors'' data of None \<Rightarrow> JArr [] | Some e \<Rightarrow> e)))
          else Inr data)"

subsection \<open>The gateway state and \<open>request\<close>\<close>

record cache_entry =
  cached_data :: json
  cached_at :: int

text \<open>
  What the two handlers attached to one \<open>fetchWithRetry\<close> promise hold in their closure:
  \<open>cacheKey\<close> and \<open>isCacheable\<close>; and, for reference, the request that was dispatched
  and its attempt count.
\<close>

record flight =
  flight_key :: string
  flight_cacheable :: bool
  flight_request :: fetch_request
  flight_attempts :: nat

text \<open>
  The module state of ApiManager: the two Maps \<open>cache\<close> and \<open>pendingRequests\<close> (promises
  are numbered), \<open>config.cacheDuration\<close>, the token under \<open>hadhramaut_auth_token\<close> in
  localStorage, and the promises created by \<open>request\<close> that have not settled yet, each
  with its closure.  Times are in milliseconds, as \<open>Date.now()\<close> gives them.
\<close>

record gateway =
  cacheDuration :: int
  cache :: "string \<rightharpoonup> cache_entry"
  pendingRequests :: "string \<rightharpoonup> nat"
  authToken :: "string option"
  flights :: "nat \<rightharpoonup> flight"
  nextPromise :: nat

definition initial_gateway :: gateway where
  "initial_gateway =
     \<lparr>cacheDuration = 5 * 60 * 1000, cache = Map.empty, pendingRequests = Map.empty,
      authToken = None, flights = Map.empty, nextPromise = 0\<rparr>"

definition setAuthToken :: "string \<Rightarrow> gateway \<Rightarrow> gateway" where
  "setAuthToken token gw = gw\<lparr>authToken := Some token\<rparr>"

definition clearAuthToken :: "gateway \<Rightarrow> gateway" where
  "clearAuthToken gw = gw\<lparr>authToken := None\<rparr>"

definition isCacheable :: "options \<Rightarrow> bool" where
  "isCacheable options \<longleftrightarrow> opt_method options = Some ''GET'' \<and> \<not> noCache options"

text \<open>
  \<open>requestOptions\<close> with the token applied.  The object literal ends with
  \<open>...options\<close>, so a member the caller passed replaces the one computed before it:
  \<open>headers\<close> is the caller's object when there is one and a copy of \<open>config.headers\<close>
  otherwise.  \<open>if (token)\<close> skips an absent and an empty token.
\<close>

definition requestOptions :: "string \<Rightarrow> options \<Rightarrow> string option \<Rightarrow> fetch_request" where
  "requestOptions endpoint options token =
     (let headers = (case opt_headers options of None \<Rightarrow> config_headers | Some h \<Rightarrow> h)
      in \<lparr>req_url = baseUrl @ endpoint,
          req_method = (case opt_method options of None \<Rightarrow> ''GET'' | Some m \<Rightarrow> m),
          req_headers = (case token of
                           None \<Rightarrow> headers
                         | Some t \<Rightarrow> if t = [] then headers
                                     else headers(''Authorization'' \<mapsto> ''Bearer '' @ t)),
          req_body = opt_body options,
          req_timeout = (case opt_timeout options of None \<Rightarrow> config_timeout | Some t \<Rightarrow> t)\<rparr>)"

definition attempts_of :: "options \<Rightarrow> nat" where
  "attempts_of options =
     (case retryAttempts options of
        None \<Rightarrow> config_retryAttempts
      | Some n \<Rightarrow> if n = 0 then config_retryAttempts else n)"

text \<open>
  What a call of \<open>request\<close> returns: a promise already resolved with cached data, the
  promise found in \<open>pendingRequests\<close>, or a new promise, for which \<open>fetchWithRetry\<close> has
  been started.
\<close>

datatype reply = FromCache json | Shared nat | Started nat

text \<open>The part of \<open>request\<close> after the cache check.\<close>

definition request_uncached :: "string \<Rightarrow> options \<Rightarrow> gateway \<Rightarrow> reply \<times> gateway" where
  "request_uncached endpoint options gw =
     (let cacheKey = generateCacheKey endpoint options
      in case pendingRequests gw cacheKey of
           Some p \<Rightarrow> (Shared p, gw)
         | None \<Rightarrow>
             (let p = nextPromise gw
              in (Started p,
                  gw\<lparr>pendingRequests := (pendingRequests gw)(cacheKey \<mapsto> p),
                     flights := (flights gw)(p \<mapsto>
                       \<lparr>flight_key = cacheKey, flight_cacheable = isCacheable options,
                        flight_request = requestOptions endpoint options (authToken gw),
                        flight_attempts = attempts_of options\<rparr>),
                     nextPromise := p + 1\<rparr>)))"

text \<open>
  \<open>request\<close>, called at time \<open>now\<close>.  It contains no await: it runs to its \<open>return\<close>
  without interruption, and the handlers of the promise run later (\<open>settle\<close>).
\<close>

definition request :: "int \<Rightarrow> string \<Rightarrow> options \<Rightarrow> gateway \<Rightarrow> reply \<times> gateway" where
  "request now endpoint options gw =
     (let cacheKey = generateCacheKey endpoint options
      in case (if isCacheable options then cache gw cacheKey else None) of
           Some cached \<Rightarrow>
             if now - cached_at cached < cacheDuration gw
             then (FromCache (cached_data cached), gw)
             else request_uncached endpoint options (gw\<lparr>cache := (cache gw)(cacheKey := None)\<rparr>)
         | None \<Rightarrow> request_uncached endpoint options gw)"

text \<open>
  The handlers of promise \<open>p\<close>, run at time \<open>now\<close> when its \<open>fetchWithRetry\<close> has ended
  with \<open>result\<close>: what the promise settles with (\<open>Inl\<close> when it is rejected) and the new
  state; \<open>None\<close> when \<open>p\<close> is not outstanding.  The \<open>then\<close> handler calls
  \<open>handleResponse\<close>, stores cacheable \<open>ok\<close> data and deletes the pending entry; when
  \<open>fetchWithRetry\<close> or \<open>handleResponse\<close> threw, the \<open>catch\<close> handler deletes the pending
  entry and rethrows.  \<open>handleResponse(undefined)\<close> throws a TypeError.
\<close>

definition settle ::
  "int \<Rightarrow> nat \<Rightarrow> fetch_result \<Rightarrow> gateway \<Rightarrow> ((fault + json) \<times> gateway) option" where
  "settle now p result gw =
     (case flights gw p of
        None \<Rightarrow> None
      | Some f \<Rightarrow>
          (let gw1 = gw\<lparr>flights := (flights gw)(p := None),
                        pendingRequests := (pendingRequests gw)(flight_key f := None)\<rparr>
           in case result of
                Threw e \<Rightarrow> Some (Inl e, gw1)
              | ReturnedUndefined \<Rightarrow> Some (Inl TypeError, gw1)
              | Returned response \<Rightarrow>
                  (case handleResponse response of
                     Inl e \<Rightarrow> Some (Inl e, gw1)
                   | Inr data \<Rightarrow>
                       Some (Inr data,
                             if flight_cacheable f \<and> ok response
                             then gw1\<lparr>cache := (cache gw1)(flight_key f \<mapsto>
                                         \<lparr>cached_data = data, cached_at = now\<rparr>)\<rparr>
                             else gw1))))"

text \<open>The hourly sweep of \<open>setupCacheCleanup\<close>, \<open>clearCache\<close> and \<open>clearCacheForKey\<close>.\<close>

definition cacheCleanup :: "int \<Rightarrow> gateway \<Rightarrow> gateway" where
  "cacheCleanup now gw =
     gw\<lparr>cache := (\<lambda>key. case cache gw key of
                         None \<Rightarrow> None
                       | Some v \<Rightarrow> if now - cached_at v > cacheDuration gw then None
                                   else Some v)\<rparr>"

definition clearCache :: "gateway \<Rightarrow> gateway" where
  "clearCache gw = gw\<lparr>cache := Map.empty\<rparr>"

definition clearCacheForKey :: "string \<Rightarrow> gateway \<Rightarrow> gateway" where
  "clearCacheForKey key gw = gw\<lparr>cache := (cache gw)(key := None)\<rparr>"

text \<open>
  \<open>healthCheck\<close> calls \<open>fetch\<close> itself, with an options literal that has no headers; it
  does not read the token.  This is the request it dispatches.
\<close>

definition healthCheck_request :: "gateway \<Rightarrow> fetch_request" where
  "healthCheck_request gw =
     \<lparr>req_url = baseUrl @ ''/health'', req_method = ''GET'', req_headers = Map.empty,
      req_body = None, req_timeout = 5000\<rparr>"

text \<open>
  What can happen to the gateway, one handler at a time: a call of \<open>request\<close>, the
  settling of a promise, the sweep, the cache invalidation calls, a change of token.
\<close>

datatype gateway_event =
    Call int string options
  | Settle int nat fetch_result
  | Sweep int
  | ClearCache
  | ClearCacheForKey string
  | SetAuthToken string
  | ClearAuthToken

fun step :: "gateway_event \<Rightarrow> gateway \<Rightarrow> gateway" where
  "step (Call now endpoint options) gw = snd (request now endpoint options gw)"
| "step (Settle now p result) gw =
     (case settle now p result gw of None \<Rightarrow> gw | Some (r, gw') \<Rightarrow> gw')"
| "step (Sweep now) gw = cacheCleanup now gw"
| "step ClearCache gw = clearCache gw"
| "step (ClearCacheForKey key) gw = clearCacheForKey key gw"
| "step (SetAuthToken token) gw = setAuthToken token gw"
| "step ClearAuthToken gw = clearAuthToken gw"

fun run :: "gateway_event list \<Rightarrow> gateway \<Rightarrow> gateway" where
  "run [] gw = gw"
| "run (e # es) gw = run es (step e gw)"

subsection \<open>Inputs used in the examples\<close>

definition get_options :: options where
  "get_options = default_options\<lparr>opt_method := Some ''GET''\<rparr>"

definition ok_response :: response where
  "ok_response =
     \<lparr>ok = True, status = 200, contentType = Some ''application/json; charset=utf-8'',
      json_body = Some (JObj [(''success'', JBool True)]), text_body = []\<rparr>"

text \<open>A 500 response whose JSON body is \<open>null\<close>.\<close>

definition null_500 :: response where
  "null_500 = \<lparr>ok = False, status = 500, contentType = Some ''application/json'',
               json_body = Some JNull, text_body = ''null''\<rparr>"

text \<open>A 502 response that announces JSON and has an empty body, which is not JSON.\<close>

definition empty_502 :: response where
  "empty_502 = \<lparr>ok = False, status = 502, contentType = Some ''application/json'',
                json_body = None, text_body = []\<rparr>"

text \<open>
  A cached answer for a key and, later, a call with the same key that opted out of the
  cache and is still outstanding.
\<close>

definition cached_and_in_flight :: gateway where
  "cached_and_in_flight =
     run [Call 0 ''/surveys/active'' get_options,
          Settle 1 0 (Returned ok_response),
          Call 2 ''/surveys/active'' (get_options\<lparr>noCache := True\<rparr>)] initial_gateway"

text \<open>
  \<open>ApiManager.getActiveSurveys()\<close> calls \<open>request\<close> with the endpoint alone; this is
  the state after one such call has been answered with \<open>ok_response\<close>.
\<close>

definition after_first_listing :: gateway where
  "after_first_listing =
     run [Call 0 ''/surveys/active?limit=10'' default_options,
          Settle 1 0 (Returned ok_response)] initial_gateway"

subsection \<open>The in-flight map\<close>

text \<open>
  The invariant that ties \<open>pendingRequests\<close> to the promises that have not settled: every
  pending entry names an outstanding promise created for that key, every outstanding
  promise is the pending entry of its key, and promise numbers are fresh.
\<close>

definition gateway_inv :: "gateway \<Rightarrow> bool" where
  "gateway_inv gw \<longleftrightarrow>
     (\<forall>k p. pendingRequests gw k = Some p \<longrightarrow> (\<exists>f. flights gw p = Some f \<and> flight_key f = k))
     \<and> (\<forall>p f. flights gw p = Some f \<longrightarrow> pendingRequests gw (flight_key f) = Some p)
     \<and> (\<forall>p f. flights gw p = Some f \<longrightarrow> p < nextPromise gw)"

lemma gateway_inv_initial: "gateway_inv initial_gateway"
  by (simp add: gateway_inv_def initial_gateway_def)

lemma gateway_inv_cache: "gateway_inv (gw\<lparr>cache := c\<rparr>) = gateway_inv gw"
  by (simp add: gateway_inv_def)

lemma gateway_inv_request_uncached:
  assumes "gateway_inv gw"
  shows "gateway_inv (snd (request_uncached endpoint options gw))"
proof (cases "pendingRequests gw (generateCacheKey endpoint options)")
  case (Some p)
  then show ?thesis using assms by (simp add: request_uncached_def)
next
  case None
  let ?k = "generateCacheKey endpoint options"
  let ?p = "nextPromise gw"
  have fresh: "flights gw ?p = None"
    using assms by (fastforce simp: gateway_inv_def)
  have other: "\<And>q g. flights gw q = Some g \<Longrightarrow> flight_key g \<noteq> ?k"
    using assms None by (fastforce simp: gateway_inv_def)
  show ?thesis
    using assms None fresh other
    unfolding gateway_inv_def request_uncached_def Let_def
    by (auto simp: less_Suc_eq) (metis option.distinct(1))
qed

lemma gateway_inv_request:
  "gateway_inv gw \<Longrightarrow> gateway_inv (snd (request now endpoint options gw))"
  by (simp add: request_def Let_def gateway_inv_request_uncached gateway_inv_cache
      split: option.splits)

lemma gateway_inv_settle:
  assumes "gateway_inv gw" and "settle now p result gw = Some (r, gw')"
  shows "gateway_inv gw'"
proof -
  obtain f where f: "flights gw p = Some f"
    using assms(2) by (auto simp: settle_def split: option.splits)
  let ?gw1 = "gw\<lparr>flights := (flights gw)(p := None),
                  pendingRequests := (pendingRequests gw)(flight_key f := None)\<rparr>"
  have inv1: "gateway_inv ?gw1"
    using assms(1) f unfolding gateway_inv_def
    by (auto split: if_splits) (metis option.inject)+
  have "gw' = ?gw1 \<or> (\<exists>c. gw' = ?gw1\<lparr>cache := c\<rparr>)"
    using assms(2) f
    by (auto simp: settle_def Let_def split: fetch_result.splits sum.splits if_splits)
  then show ?thesis using inv1 gateway_inv_cache by metis
qed

lemma gateway_inv_step: "gateway_inv gw \<Longrightarrow> gateway_inv (step e gw)"
proof (cases e)
  case (Call now endpoint options)
  assume "gateway_inv gw"
  then show ?thesis using Call by (simp add: gateway_inv_request)
next
  case (Settle now p result)
  assume "gateway_inv gw"
  then show ?thesis using Settle gateway_inv_settle
    by (cases "settle now p result gw") auto
qed (simp_all add: gateway_inv_def cacheCleanup_def clearCache_def clearCacheForKey_def
      setAuthToken_def clearAuthToken_def)

lemma gateway_inv_run: "gateway_inv gw \<Longrightarrow> gateway_inv (run es gw)"
  by (induction es arbitrary: gw) (simp_all add: gateway_inv_step)


lemma request_uncached_pending:
  "pendingRequests gw (generateCacheKey endpoint options) = Some p \<Longrightarrow>
   request_uncached endpoint options gw = (Shared p, gw)"
  by (simp add: request_uncached_def)

lemma request_uncached_idle:
  "pendingRequests gw (generateCacheKey endpoint options) = None \<Longrightarrow>
   fst (request_uncached endpoint options gw) = Started (nextPromise gw)
   \<and> flights (snd (request_uncached endpoint options gw)) (nextPromise gw)
       = Some \<lparr>flight_key = generateCacheKey endpoint options,
               flight_cacheable = isCacheable options,
               flight_request = requestOptions endpoint options (authToken gw),
               flight_attempts = attempts_of options\<rparr>
   \<and> pendingRequests (snd (request_uncached endpoint options gw))
        (generateCacheKey endpoint options) = Some (nextPromise gw)"
  by (simp add: request_uncached_def Let_def)

lemma request_while_pending:
  assumes "pendingRequests gw (generateCacheKey endpoint options) = Some p"
  shows "flights (snd (request now endpoint options gw)) = flights gw
         \<and> pendingRequests (snd (request now endpoint options gw)) = pendingRequests gw
         \<and> (fst (request now endpoint options gw) = Shared p
              \<or> isCacheable options
                \<and> (\<exists>e. cache gw (generateCacheKey endpoint options) = Some e
                       \<and> now - cached_at e < cacheDuration gw
                       \<and> fst (request now endpoint options gw) = FromCache (cached_data e)))"
  using assms
  by (auto simp: request_def request_uncached_def Let_def split: option.splits)

lemma settle_removes_pending:
  assumes "flights gw p = Some f"
  shows "\<exists>r gw'. settle now p result gw = Some (r, gw')
           \<and> pendingRequests gw' (flight_key f) = None \<and> flights gw' p = None"
  using assms
  by (cases result; cases "handleResponse (case result of Returned r \<Rightarrow> r)")
     (auto simp: settle_def Let_def split: sum.splits)

lemma handleResponse_ok_response:
  "handleResponse ok_response = Inr (JObj [(''success'', JBool True)])"
  by (simp add: handleResponse_def read_body_def ok_response_def)

lemma ok_ok_response: "ok ok_response"
  by (simp add: ok_response_def)

text \<open>
  C4, as stated, at a concrete state.  The key of \<open>GET /surveys/active\<close> has a request in
  flight (promise 1, started by a call that opted out of the cache) and a fresh cache
  entry from an earlier call.  A call with that key is answered from the cache; it does
  not attach to promise 1.
\<close>

theorem request_prefers_cache_to_in_flight:
  "generateCacheKey ''/surveys/active'' (get_options\<lparr>noCache := True\<rparr>)
     = generateCacheKey ''/surveys/active'' get_options
   \<and> pendingRequests cached_and_in_flight (generateCacheKey ''/surveys/active'' get_options)
       = Some 1
   \<and> fst (request 3 ''/surveys/active'' get_options cached_and_in_flight)
       = FromCache (JObj [(''success'', JBool True)])
   \<and> fst (request 3 ''/surveys/active'' get_options cached_and_in_flight) \<noteq> Shared 1"
  by (simp add: cached_and_in_flight_def request_def request_uncached_def settle_def
      isCacheable_def generateCacheKey_def get_options_def default_options_def
      initial_gateway_def handleResponse_ok_response ok_ok_response Let_def)

text \<open>
  C4, amended.  In every state the gateway can reach: two outstanding promises never
  have the same key; while a key is pending, a call with that key starts no request and
  changes neither map, and it returns the pending promise unless it is a cacheable call
  that finds a fresh cache entry, which it returns; and when an outstanding promise
  settles, whatever the result, its key is no longer pending.
\<close>

theorem request_single_flight_per_key:
  "(let gw = run events initial_gateway; key = generateCacheKey endpoint options
    in (\<forall>p q f g. flights gw p = Some f \<longrightarrow> flights gw q = Some g \<longrightarrow>
                   flight_key f = flight_key g \<longrightarrow> p = q)
       \<and> (\<forall>p. pendingRequests gw key = Some p \<longrightarrow>
             (\<exists>f. flights gw p = Some f \<and> flight_key f = key)
             \<and> flights (snd (request now endpoint options gw)) = flights gw
             \<and> pendingRequests (snd (request now endpoint options gw)) = pendingRequests gw
             \<and> (fst (request now endpoint options gw) = Shared p
                  \<or> isCacheable options
                    \<and> (\<exists>e. cache gw key = Some e \<and> now - cached_at e < cacheDuration gw
                           \<and> fst (request now endpoint options gw)
                               = FromCache (cached_data e))))
       \<and> (\<forall>p f. flights gw p = Some f \<longrightarrow>
             (\<exists>r gw'. settle now' p result gw = Some (r, gw')
                       \<and> pendingRequests gw' (flight_key f) = None \<and> flights gw' p = None)))"
proof -
  let ?gw = "run events initial_gateway"
  have inv: "gateway_inv ?gw"
    by (rule gateway_inv_run [OF gateway_inv_initial])
  have one: "\<forall>p q f g. flights ?gw p = Some f \<longrightarrow> flights ?gw q = Some g \<longrightarrow>
                 flight_key f = flight_key g \<longrightarrow> p = q"
    using inv unfolding gateway_inv_def by (metis option.inject)
  have named: "\<forall>k p. pendingRequests ?gw k = Some p \<longrightarrow>
                 (\<exists>f. flights ?gw p = Some f \<and> flight_key f = k)"
    using inv unfolding gateway_inv_def by blast
  show ?thesis
    unfolding Let_def
    using one named request_while_pending settle_removes_pending by blast
qed

theorem request_single_flight_per_key_witness:
  "pendingRequests (run [Call 0 ''/surveys'' default_options] initial_gateway)
     (generateCacheKey ''/surveys'' default_options) = Some 0
   \<and> flights (snd (request 1 ''/surveys'' default_options
         (run [Call 0 ''/surveys'' default_options] initial_gateway)))
       = flights (run [Call 0 ''/surveys'' default_options] initial_gateway)
   \<and> fst (request 1 ''/surveys'' default_options
         (run [Call 0 ''/surveys'' default_options] initial_gateway)) = Shared 0
   \<and> (\<exists>f. flights (run [Call 0 ''/surveys'' default_options] initial_gateway) 0 = Some f
          \<and> flight_key f = generateCacheKey ''/surveys'' default_options)
   \<and> (\<exists>r gw'. settle 2 0 (Threw (TransportFault ''offline''))
                    (run [Call 0 ''/surveys'' default_options] initial_gateway) = Some (r, gw')
          \<and> pendingRequests gw' (generateCacheKey ''/surveys'' default_options) = None
          \<and> flights gw' 0 = None)"
  using request_single_flight_per_key
    [of "[Call 0 ''/surveys'' default_options]" "''/surveys''" default_options 1 2
        "Threw (TransportFault ''offline'')"]
  by (simp add: request_def request_uncached_def settle_def isCacheable_def
      generateCacheKey_def default_options_def initial_gateway_def Let_def)

subsection \<open>The response cache\<close>

lemma request_fresh_hit:
  "isCacheable options \<Longrightarrow> cache gw (generateCacheKey endpoint options) = Some e \<Longrightarrow>
   now - cached_at e < cacheDuration gw \<Longrightarrow>
   request now endpoint options gw = (FromCache (cached_data e), gw)"
  by (simp add: request_def)

text \<open>An answer from the cache always comes from an entry younger than \<open>cacheDuration\<close>.\<close>

lemma request_FromCache_is_fresh:
  assumes "fst (request now endpoint options gw) = FromCache d"
  shows "isCacheable options \<and>
         (\<exists>e. cache gw (generateCacheKey endpoint options) = Some e \<and> cached_data e = d
              \<and> now - cached_at e < cacheDuration gw)"
proof -
  have no: "\<And>g. fst (request_uncached endpoint options g) \<noteq> FromCache d"
    by (simp add: request_uncached_def Let_def split: option.splits)
  show ?thesis
    using assms no
    by (auto simp: request_def Let_def split: option.splits if_splits)
qed

text \<open>An entry that has reached \<open>cacheDuration\<close> is deleted by the read that finds it.\<close>

lemma request_stale_evicts:
  assumes "isCacheable options" "cache gw (generateCacheKey endpoint options) = Some e"
    "\<not> now - cached_at e < cacheDuration gw"
  shows "request now endpoint options gw
           = request_uncached endpoint options
               (gw\<lparr>cache := (cache gw)(generateCacheKey endpoint options := None)\<rparr>)"
  using assms by (simp add: request_def)

lemma request_not_cacheable:
  "\<not> isCacheable options \<Longrightarrow>
   request now endpoint options gw = request_uncached endpoint options gw"
  by (simp add: request_def)

lemma settle_populates_cache:
  assumes "flights gw p = Some f" "handleResponse response = Inr data" "ok response"
  shows "settle now p (Returned response) gw
           = Some (Inr data,
               (if flight_cacheable f
                then gw\<lparr>flights := (flights gw)(p := None),
                        pendingRequests := (pendingRequests gw)(flight_key f := None),
                        cache := (cache gw)(flight_key f \<mapsto>
                                   \<lparr>cached_data = data, cached_at = now\<rparr>)\<rparr>
                else gw\<lparr>flights := (flights gw)(p := None),
                        pendingRequests := (pendingRequests gw)(flight_key f := None)\<rparr>))"
  using assms by (simp add: settle_def Let_def)

text \<open>The sweep leaves no entry older than \<open>cacheDuration\<close>.\<close>

lemma cacheCleanup_evicts:
  "cache (cacheCleanup now gw) key = Some v \<Longrightarrow> now - cached_at v \<le> cacheDuration gw"
  by (auto simp: cacheCleanup_def split: option.splits if_splits)

text \<open>
  C5.  \<open>getActiveSurveys()\<close> is a GET request that did not opt out of the cache; its
  \<open>options\<close> have no \<open>method\<close> member, so \<open>isCacheable\<close> is false.  After the first call
  has been answered with a 200 response the cache is empty, and a second call one
  millisecond later starts a new request (promise 1) where the claim wants the cached
  value and no dispatch.
\<close>

theorem request_default_method_not_cached:
  "req_method (requestOptions ''/surveys/active?limit=10'' default_options None) = ''GET''
   \<and> \<not> noCache default_options
   \<and> \<not> isCacheable default_options
   \<and> cache after_first_listing
        (generateCacheKey ''/surveys/active?limit=10'' default_options) = None
   \<and> pendingRequests after_first_listing
        (generateCacheKey ''/surveys/active?limit=10'' default_options) = None
   \<and> fst (request 2 ''/surveys/active?limit=10'' default_options after_first_listing)
       = Started 1"
  by (simp add: after_first_listing_def request_def request_uncached_def settle_def
      requestOptions_def isCacheable_def generateCacheKey_def default_options_def
      initial_gateway_def handleResponse_ok_response Let_def)

subsection \<open>Retry and response handling\<close>

text \<open>
  The defining equation of the loop is unconditional; it is unfolded by hand, one
  iteration at a time.
\<close>

declare fetchWithRetry_loop.simps [simp del]

text \<open>
  What iterations \<open>i\<close> to \<open>j - 1\<close> do when each of them fails and is not the last one:
  the fetch, then a wait of \<open>2 ^ k\<close> seconds.
\<close>

definition backoff :: "nat \<Rightarrow> nat \<Rightarrow> effect list" where
  "backoff i j = concat (map (\<lambda>k. [Fetch k, Delay (2 ^ k * 1000)]) [i..<j])"

lemma backoff_step: "i < j \<Longrightarrow> backoff i j = [Fetch i, Delay (2 ^ i * 1000)] @ backoff (Suc i) j"
  by (simp add: backoff_def upt_conv_Cons)

lemma backoff_empty: "backoff i i = []"
  by (simp add: backoff_def)

text \<open>
  When every attempt fails, all \<open>n\<close> attempts are made, each but the last followed by its
  wait, and the error of the last attempt is thrown.
\<close>

lemma fetchWithRetry_loop_all_fail:
  assumes "i < n" and "\<And>k. i \<le> k \<Longrightarrow> k < n \<Longrightarrow> transport k = Inl (err k)"
  shows "fetchWithRetry_loop transport n i log
           = (Threw (TransportFault (err (n - 1))), log @ backoff i (n - 1) @ [Fetch (n - 1)])"
  using assms
proof (induction "n - i" arbitrary: i log)
  case 0
  then show ?case by simp
next
  case (Suc d)
  have ti: "transport i = Inl (err i)" using Suc.prems by simp
  show ?case
  proof (cases "i = n - 1")
    case True
    then show ?thesis using Suc.prems(1) ti
      by (subst fetchWithRetry_loop.simps) (simp add: backoff_empty)
  next
    case False
    then have lt: "i < n - 1" using Suc.prems(1) by simp
    have d: "d = n - Suc i" using Suc.hyps(2) by simp
    have "fetchWithRetry_loop transport n (Suc i) (log @ [Fetch i, Delay (2 ^ i * 1000)])
            = (Threw (TransportFault (err (n - 1))),
               (log @ [Fetch i, Delay (2 ^ i * 1000)]) @ backoff (Suc i) (n - 1) @ [Fetch (n - 1)])"
      using Suc.hyps(1) [OF d] lt Suc.prems(2) by simp
    then show ?thesis using Suc.prems(1) ti False backoff_step [OF lt]
      by (subst fetchWithRetry_loop.simps) simp
  qed
qed

text \<open>
  When attempt \<open>j\<close> is the first to get a response, ok or not, that response is returned
  after \<open>j\<close> failed attempts and their waits, and no fetch follows it.
\<close>

lemma fetchWithRetry_loop_responds:
  assumes "i \<le> j" and "j < n" and "transport j = Inr resp"
    and "\<And>k. i \<le> k \<Longrightarrow> k < j \<Longrightarrow> transport k = Inl (err k)"
  shows "fetchWithRetry_loop transport n i log = (Returned resp, log @ backoff i j @ [Fetch j])"
  using assms
proof (induction "j - i" arbitrary: i log)
  case 0
  then have "i = j" by simp
  then show ?case using "0.prems"
    by (subst fetchWithRetry_loop.simps) (simp add: backoff_empty)
next
  case (Suc d)
  then have lt: "i < j" by simp
  have ti: "transport i = Inl (err i)" using Suc.prems(4) lt by simp
  have d: "d = j - Suc i" using Suc.hyps(2) by simp
  have ne: "i \<noteq> n - 1" using lt Suc.prems(2) by simp
  have "fetchWithRetry_loop transport n (Suc i) (log @ [Fetch i, Delay (2 ^ i * 1000)])
          = (Returned resp, (log @ [Fetch i, Delay (2 ^ i * 1000)]) @ backoff (Suc i) j @ [Fetch j])"
    using Suc.hyps(1) [OF d] lt Suc.prems by simp
  then show ?case using lt Suc.prems(2) ti ne backoff_step [OF lt]
    by (subst fetchWithRetry_loop.simps) simp
qed

lemma fetchWithRetry_all_fail:
  "0 < n \<Longrightarrow> (\<And>k. k < n \<Longrightarrow> transport k = Inl (err k)) \<Longrightarrow>
   fetchWithRetry transport n
     = (Threw (TransportFault (err (n - 1))), backoff 0 (n - 1) @ [Fetch (n - 1)])"
  using fetchWithRetry_loop_all_fail [of 0 n transport err "[]"]
  by (simp add: fetchWithRetry_def)

lemma fetchWithRetry_responds:
  "j < n \<Longrightarrow> transport j = Inr resp \<Longrightarrow> (\<And>k. k < j \<Longrightarrow> transport k = Inl (err k)) \<Longrightarrow>
   fetchWithRetry transport n = (Returned resp, backoff 0 j @ [Fetch j])"
  using fetchWithRetry_loop_responds [of 0 j n transport resp err "[]"]
  by (simp add: fetchWithRetry_def)

text \<open>The attempt count \<open>request\<close> passes on is never zero; it is 3 by default.\<close>

lemma attempts_of_positive: "0 < attempts_of options"
  by (simp add: attempts_of_def config_retryAttempts_def split: option.splits)

lemma attempts_of_default: "attempts_of default_options = 3"
  by (simp add: attempts_of_def config_retryAttempts_def default_options_def)

text \<open>The error \<open>fetchWithRetry\<close> ends with is the one the caller of \<open>request\<close> catches.\<close>

lemma settle_Threw:
  "flights gw p = Some f \<Longrightarrow> map_option fst (settle now p (Threw e) gw) = Some (Inl e)"
  by (simp add: settle_def Let_def)

text \<open>
  A response that is not \<open>ok\<close> and whose body was read, and is not \<open>null\<close>, becomes an
  \<open>ApiError\<close> with the response's status.
\<close>

lemma handleResponse_not_ok:
  "\<not> ok response \<Longrightarrow> read_body response = Inr data \<Longrightarrow> data \<noteq> JNull \<Longrightarrow>
   \<exists>message errors. handleResponse response = Inl (ApiError message (status response) errors)"
  by (simp add: handleResponse_def)


text \<open>
  C6.  The retry part of the claim holds (\<open>fetchWithRetry_all_fail\<close>,
  \<open>fetchWithRetry_responds\<close>, \<open>attempts_of_default\<close>), and a response that is not \<open>ok\<close> is
  never fetched again.  The typed fault does not always surface: for a 500 response
  whose JSON body is \<open>null\<close> there is one fetch and no retry, but \<open>handleResponse\<close> throws
  a TypeError while it builds the \<open>ApiError\<close>, and the caller of \<open>request\<close> catches that
  TypeError, which carries neither status nor message nor field errors.  A 502 response
  that announces JSON and has an empty body surfaces as the SyntaxError of
  \<open>response.json()\<close> in the same way.
\<close>

theorem handleResponse_null_body_throws_TypeError:
  "\<not> ok null_500
   \<and> fetchWithRetry (\<lambda>i. Inr null_500) (attempts_of default_options)
       = (Returned null_500, [Fetch 0])
   \<and> handleResponse null_500 = Inl TypeError
   \<and> map_option fst (settle 1 0 (Returned null_500)
         (snd (request 0 ''/surveys'' default_options initial_gateway)))
       = Some (Inl TypeError)
   \<and> \<not> ok empty_502
   \<and> handleResponse empty_502 = Inl SyntaxError"
  using fetchWithRetry_responds [of 0 "attempts_of default_options" "\<lambda>i. Inr null_500" null_500]
    attempts_of_positive [of default_options]
  by (simp add: backoff_empty handleResponse_def read_body_def null_500_def empty_502_def
      settle_def request_def request_uncached_def isCacheable_def default_options_def
      initial_gateway_def Let_def)

subsection \<open>The Authorization header\<close>

text \<open>
  C7, as stated, at concrete inputs.  With a token in the store, the request dispatched
  by \<open>healthCheck\<close> has no Authorization header.  With no token in the store, a request
  built by \<open>request\<close> from caller headers that contain an Authorization member carries it.
\<close>

theorem healthCheck_request_has_no_Authorization:
  "authToken (setAuthToken ''secret'' initial_gateway) = Some ''secret''
   \<and> req_headers (healthCheck_request (setAuthToken ''secret'' initial_gateway))
        ''Authorization'' = None
   \<and> authToken initial_gateway = None
   \<and> req_headers
        (requestOptions ''/files/7''
           (default_options\<lparr>opt_headers := Some [''Authorization'' \<mapsto> ''Basic abc'']\<rparr>)
           (authToken initial_gateway))
        ''Authorization'' = Some ''Basic abc''"
  by (simp add: setAuthToken_def healthCheck_request_def requestOptions_def
      default_options_def initial_gateway_def)

text \<open>
  C7, amended.  Every request that \<open>request\<close> dispatches has the caller's headers (the
  defaults of \<open>config.headers\<close> when the caller passed none), with Authorization set to
  \<open>Bearer\<close> and the token when a non-empty token is stored, and with nothing added or
  removed when no token, or an empty one, is stored.  \<open>healthCheck\<close> never sends an
  Authorization header.
\<close>

theorem request_Authorization_header:
  "(request now endpoint options gw = (Started p, gw') \<longrightarrow>
      (\<exists>f. flights gw' p = Some f \<and>
         req_headers (flight_request f) =
           (let headers = (case opt_headers options of None \<Rightarrow> config_headers | Some h \<Rightarrow> h)
            in case authToken gw of
                 None \<Rightarrow> headers
               | Some t \<Rightarrow> if t = [] then headers
                           else headers(''Authorization'' \<mapsto> ''Bearer '' @ t))))
   \<and> req_headers (healthCheck_request gw) ''Authorization'' = None"
  by (auto simp: request_def request_uncached_def requestOptions_def healthCheck_request_def
      Let_def split: option.splits if_splits)

theorem request_Authorization_header_witness:
  "request 0 ''/surveys'' default_options (setAuthToken ''secret'' initial_gateway)
     = (Started 0, snd (request 0 ''/surveys'' default_options
                          (setAuthToken ''secret'' initial_gateway)))
   \<and> (\<exists>f. flights (snd (request 0 ''/surveys'' default_options
                           (setAuthToken ''secret'' initial_gateway))) 0 = Some f
          \<and> req_headers (flight_request f) ''Authorization'' = Some ''Bearer secret'')"
  using request_Authorization_header
    [of 0 "''/surveys''" default_options "setAuthToken ''secret'' initial_gateway" 0
        "snd (request 0 ''/surveys'' default_options (setAuthToken ''secret'' initial_gateway))"]
  by (simp add: request_def request_uncached_def isCacheable_def generateCacheKey_def
      default_options_def initial_gateway_def setAuthToken_def Let_def)

end
